theory Spec2Isabelle
  imports Main
begin

section \<open>JavaScript values\<close>

text \<open>
  The values that reach the code from its callers: configuration fields, query
  parameters, and the argument of the two escape helpers. An object is known by its
  reference only. \<open>truthy\<close> is the conversion the operators \<open>!\<close>, \<open>&&\<close> and
  \<open>? :\<close> apply to their first operand.
\<close>

datatype js_value =
    JUndefined
  | JNull
  | JBool bool
  | JNum int
  | JNaN
  | JStr string
  | JObj nat

fun truthy :: "js_value \<Rightarrow> bool" where
  "truthy JUndefined = False"
| "truthy JNull = False"
| "truthy (JBool b) = b"
| "truthy (JNum n) = (n \<noteq> 0)"
| "truthy JNaN = False"
| "truthy (JStr s) = (s \<noteq> [])"
| "truthy (JObj r) = True"

fun is_string :: "js_value \<Rightarrow> bool" where
  "is_string (JStr s) = True"
| "is_string v = False"

section \<open>The escape helpers\<close>

text \<open>
  \<open>source.replace(/c/g, rep)\<close> for a pattern that is one literal character and a
  replacement text without \<open>$\<close>: the scan goes left to right, each match is one
  character long, and the text between matches is copied.
\<close>

fun replace_global :: "char \<Rightarrow> string \<Rightarrow> string \<Rightarrow> string" where
  "replace_global c rep [] = []"
| "replace_global c rep (x # xs) =
     (if x = c then rep @ replace_global c rep xs else x # replace_global c rep xs)"

definition double_quote :: char where
  "double_quote = CHR 0x22"

definition single_quote :: char where
  "single_quote = CHR 0x27"

definition backslash :: char where
  "backslash = CHR 0x5C"

text \<open>
  \<^verbatim>\<open>static escapeDoubleQuotes (source) {
    return (typeof source === 'string') ? source.replace(/"/g, '\\"') : source; }\<close>
\<close>

fun escapeDoubleQuotes :: "js_value \<Rightarrow> js_value" where
  "escapeDoubleQuotes (JStr s) = JStr (replace_global double_quote [backslash, double_quote] s)"
| "escapeDoubleQuotes source = source"

text \<open>
  \<^verbatim>\<open>static escapeSingleQuotes (source) {
    return (typeof source === 'string') ? source.replace(/'/g, "''") : source; }\<close>
\<close>

fun escapeSingleQuotes :: "js_value \<Rightarrow> js_value" where
  "escapeSingleQuotes (JStr s) = JStr (replace_global single_quote [single_quote, single_quote] s)"
| "escapeSingleQuotes source = source"

text \<open>What the documentation of the helpers says of the result, on its own: each
  character is kept, or replaced when it is the quote.\<close>

definition each_replaced :: "char \<Rightarrow> string \<Rightarrow> string \<Rightarrow> string" where
  "each_replaced c rep s = concat (map (\<lambda>x. if x = c then rep else [x]) s)"

section \<open>Collaborators: the driver and the pool\<close>

text \<open>
  The driver (\<open>pg\<close>) and the pool (\<open>generic-pool\<close>) are libraries outside this
  repository. The code is modelled against what they hand back: each call to one of them is
  an action in a trace, and its outcome is an argument supplied by the environment.
  An \<open>Error\<close> object is read through its \<open>message\<close> only; a client is an object with
  a \<open>processID\<close>; the member \<open>fields\<close> of a result is \<open>resultFields\<close> here.
\<close>

record js_error =
  message :: string

record pg_client =
  clientRef :: nat
  processID :: int

type_synonym row = "(string \<times> js_value) list"

record pg_result =
  command :: string
  rowCount :: int
  resultFields :: "string list"
  rows :: "row list"

text \<open>
  The four payloads handed to \<open>emit\<close>; the member \<open>event\<close> is the constructor, the
  other members are its arguments: \<open>processID\<close> for the first two, \<open>sql\<close>,
  \<open>parms\<close>, \<open>processID\<close> for the third and \<open>elapsedTime\<close>, \<open>sql\<close>,
  \<open>parms\<close>, \<open>data\<close>, \<open>processID\<close> for the fourth.
\<close>

datatype event =
    ConnectEvent int
  | DisconnectEvent int
  | QueryEvent string "js_value list" int
  | ResultsEvent int string "js_value list" "row list" int

text \<open>What a promise of this code is rejected with: an \<open>Error\<close> object passed on, a
  string, or the boolean of \<open>validate\<close>.\<close>

datatype reason =
    ReasonError js_error
  | ReasonString string
  | ReasonBool bool

text \<open>How a promise ends: fulfilled, rejected, or left pending for ever because neither
  \<open>resolve\<close> nor \<open>reject\<close> is reached.\<close>

datatype 'a settled =
    Fulfilled 'a
  | Rejected reason
  | Pending

text \<open>A call of \<open>resolve\<close> or \<open>reject\<close> of the promise that \<open>query\<close> or \<open>close\<close>
  returns.\<close>

datatype settlement =
    Resolve_results pg_result
  | Resolve_void
  | Reject reason

text \<open>
  What the code does to the outside, with the arguments it passes: the calls to the pool
  (\<open>release\<close> may be passed \<open>null\<close>, which is \<open>None\<close>), the read of the pool's
  \<open>_factoryCreateOperations\<close>, \<open>setTimeout\<close>, the calls to a client, \<open>emit\<close>, and
  the settling of the promise handed to the caller. \<open>Uncaught\<close> is an exception that
  leaves a callback of the driver with no handler around it.
\<close>

datatype action =
    PoolAcquire nat
  | PoolRelease "pg_client option"
  | PoolDrain
  | PoolClear
  | ReadFactoryCreateOperations
  | SetTimeout nat
  | ClientConnect pg_client
  | ClientQuery pg_client string "js_value list"
  | ClientEnd pg_client
  | Emit event
  | Uncaught
  | Settle settlement


fun is_release :: "action \<Rightarrow> bool" where
  "is_release (PoolRelease c) = True"
| "is_release a = False"

fun is_emit :: "action \<Rightarrow> bool" where
  "is_emit (Emit e) = True"
| "is_emit a = False"

fun is_query_emit :: "action \<Rightarrow> bool" where
  "is_query_emit (Emit (QueryEvent sql parms pid)) = True"
| "is_query_emit a = False"

fun is_results_emit :: "action \<Rightarrow> bool" where
  "is_results_emit (Emit (ResultsEvent el sql parms d pid)) = True"
| "is_results_emit a = False"

section \<open>The instance\<close>

text \<open>
  \<open>emitControl\<close> has the members \<open>connect\<close>, \<open>disconnect\<close>, \<open>query\<close> and
  \<open>results\<close> (here with the prefix \<open>ec_\<close>); each is tested for truthiness only, and
  a missing member is \<open>undefined\<close>.
\<close>

record emit_control =
  ec_connect :: js_value
  ec_disconnect :: js_value
  ec_query :: js_value
  ec_results :: js_value

record db_config =
  host :: string
  user :: string
  password :: string
  port :: js_value
  database :: js_value

record pool_config =
  poolMin :: js_value
  poolMax :: js_value
  idleTimeoutMillis :: js_value
  acquireTimeoutMillis :: js_value

text \<open>
  The members of the instance: \<open>_onErrorMessage\<close> (\<open>None\<close> is \<open>null\<close>),
  \<open>_emitControl\<close>, \<open>_FACTORY_CREATION_WAIT_PERIOD\<close>, the configuration captured by
  the factory, and the configuration that \<open>GenericPool.createPool\<close> received, which
  stands for \<open>_pool\<close>.
\<close>

record executor =
  onErrorMessage :: "string option"
  emitControl :: emit_control
  FACTORY_CREATION_WAIT_PERIOD :: nat
  factoryConfig :: db_config
  poolOptions :: pool_config

definition empty_object :: emit_control where
  "empty_object =
     \<lparr>ec_connect = JUndefined, ec_disconnect = JUndefined,
      ec_query = JUndefined, ec_results = JUndefined\<rparr>"

text \<open>
  \<^verbatim>\<open>constructor (dbConfig, poolConfig, emitControl = {}) {
    let factory = this.createFactory(dbConfig);
    this._onErrorMessage = null;
    this._emitControl = emitControl;
    this._FACTORY_CREATION_WAIT_PERIOD = 500;
    !poolConfig.acquireTimeoutMillis && (poolConfig.acquireTimeoutMillis = 1000);
    this._pool = GenericPool.createPool(factory, poolConfig);
    this._pool.on('factoryCreateError', ...); }\<close>
  The default of the third parameter applies when the argument is missing (\<open>None\<close>).
\<close>

definition constructor :: "db_config \<Rightarrow> pool_config \<Rightarrow> emit_control option \<Rightarrow> executor" where
  "constructor dbConfig poolConfig emitControlArg =
     (let emitControl = (case emitControlArg of None \<Rightarrow> empty_object | Some ec \<Rightarrow> ec);
          poolConfig1 =
            (if \<not> truthy (acquireTimeoutMillis poolConfig)
             then poolConfig\<lparr>acquireTimeoutMillis := JNum 1000\<rparr>
             else poolConfig)
      in \<lparr>onErrorMessage = None,
          emitControl = emitControl,
          FACTORY_CREATION_WAIT_PERIOD = 500,
          factoryConfig = dbConfig,
          poolOptions = poolConfig1\<rparr>)"

text \<open>
  The listener of the pool's \<open>factoryCreateError\<close> event. The pool passes what
  \<open>create\<close> rejected with, which is the string \<open>err.message\<close>; the empty string is
  falsy.
  \<^verbatim>\<open>(err) => { err && (this._onErrorMessage = err); }\<close>
\<close>

definition on_factoryCreateError :: "string \<Rightarrow> executor \<Rightarrow> executor" where
  "on_factoryCreateError err this =
     (if truthy (JStr err) then this\<lparr>onErrorMessage := Some err\<rparr> else this)"

text \<open>
  \<open>_onErrorMessage\<close> is written at two places only: by that listener, and by the
  callback of \<open>_query\<close> when a statement has succeeded. While one call waits for the
  pool or for the driver, the pool may report errors and other calls may succeed; what
  this does to the instance is a sequence of such writes.
\<close>

datatype other_write =
    Report string
  | Clear

fun apply_write :: "other_write \<Rightarrow> executor \<Rightarrow> executor" where
  "apply_write (Report err) this = on_factoryCreateError err this"
| "apply_write Clear this = this\<lparr>onErrorMessage := None\<rparr>"

definition meanwhile :: "other_write list \<Rightarrow> executor \<Rightarrow> executor" where
  "meanwhile ws this = fold apply_write ws this"

section \<open>Promises\<close>

text \<open>
  A promise-returning computation, run to its end: from the state at its start it gives
  the state at its end, the actions performed in order, and how its promise settled.
  \<open>then_p\<close> is \<open>.then(f)\<close>, \<open>catch_p\<close> is \<open>.catch(h)\<close>; neither handler
  runs after a promise that stays pending.
\<close>

type_synonym ('s, 'a) promise = "'s \<Rightarrow> 's \<times> action list \<times> 'a settled"

definition then_p :: "('s, 'a) promise \<Rightarrow> ('a \<Rightarrow> ('s, 'b) promise) \<Rightarrow> ('s, 'b) promise" where
  "then_p p f s =
     (case p s of
        (s1, t1, Fulfilled a) \<Rightarrow> (case f a s1 of (s2, t2, r) \<Rightarrow> (s2, t1 @ t2, r))
      | (s1, t1, Rejected e) \<Rightarrow> (s1, t1, Rejected e)
      | (s1, t1, Pending) \<Rightarrow> (s1, t1, Pending))"

definition catch_p :: "('s, 'a) promise \<Rightarrow> (reason \<Rightarrow> ('s, 'a) promise) \<Rightarrow> ('s, 'a) promise" where
  "catch_p p h s =
     (case p s of
        (s1, t1, Fulfilled a) \<Rightarrow> (s1, t1, Fulfilled a)
      | (s1, t1, Rejected e) \<Rightarrow> (case h e s1 of (s2, t2, r) \<Rightarrow> (s2, t1 @ t2, r))
      | (s1, t1, Pending) \<Rightarrow> (s1, t1, Pending))"

text \<open>A call to a collaborator: the action, and the outcome the environment gives.\<close>

definition call :: "action \<Rightarrow> 'a settled \<Rightarrow> ('s, 'a) promise" where
  "call a r s = (s, [a], r)"

text \<open>A statement of a handler that performs one action and goes on.\<close>

definition perform :: "action \<Rightarrow> ('s, unit) promise" where
  "perform a = call a (Fulfilled ())"

definition of_outcome :: "js_error + 'a \<Rightarrow> 'a settled" where
  "of_outcome x = (case x of Inl err \<Rightarrow> Rejected (ReasonError err) | Inr v \<Rightarrow> Fulfilled v)"

text \<open>The promise that \<open>new Promise((resolve, reject) => ...)\<close> returns takes the first
  call of \<open>resolve\<close> or \<open>reject\<close>; with no call it stays pending (\<open>None\<close>).\<close>

fun first_settle :: "action list \<Rightarrow> settlement option" where
  "first_settle [] = None"
| "first_settle (Settle x # as) = Some x"
| "first_settle (a # as) = first_settle as"

section \<open>Emitting\<close>

text \<open>
  \<open>control && that.emit(name, payload)\<close> inside a callback of the driver. \<open>emit\<close> of
  \<open>EventEmitter\<close> runs the listeners at once, inside the call. When the member of
  \<open>emitControl\<close> is truthy and a listener throws, the exception leaves \<open>emit\<close> and
  the callback, and the statements after it are not reached: the second component says
  so. Whether a listener throws is given by the environment.
\<close>

definition emit_when :: "js_value \<Rightarrow> event \<Rightarrow> bool \<Rightarrow> action list \<times> bool" where
  "emit_when control ev listenerThrows =
     (if truthy control
      then (if listenerThrows then ([Emit ev, Uncaught], True) else ([Emit ev], False))
      else ([], False))"

section \<open>The factory\<close>

text \<open>
  \<^verbatim>\<open>create: () => new Promise(function (resolve, reject) {
    let client = new pg.Client(config);
    client.connect((err) => {
      if (err) { return reject(err.message); }
      else { that._emitControl.connect && that.emit('connect', {...});
             return resolve(client); } }) })\<close>
  The environment gives the new client, the \<open>err\<close> of the callback, and whether a
  listener of \<open>connect\<close> throws.
\<close>

definition create ::
  "pg_client \<Rightarrow> js_error option \<Rightarrow> bool \<Rightarrow> (executor, pg_client) promise" where
  "create client err listenerThrows that =
     (case err of
        Some e \<Rightarrow> (that, [ClientConnect client], Rejected (ReasonString (message e)))
      | None \<Rightarrow>
          (case emit_when (ec_connect (emitControl that)) (ConnectEvent (processID client))
                  listenerThrows of
             (t, thrown) \<Rightarrow>
               (that, ClientConnect client # t,
                if thrown then Pending else Fulfilled client)))"

text \<open>
  \<^verbatim>\<open>validate: (client) => new Promise((resolve, reject) => {
    client.query('select 1', [], function(err, results) {
      if (err) { return reject(false); }
      return resolve(true); }); })\<close>
\<close>

definition validate :: "pg_client \<Rightarrow> js_error + pg_result \<Rightarrow> (executor, bool) promise" where
  "validate client reply that =
     (case reply of
        Inl err \<Rightarrow> (that, [ClientQuery client ''select 1'' []], Rejected (ReasonBool False))
      | Inr results \<Rightarrow> (that, [ClientQuery client ''select 1'' []], Fulfilled True))"

text \<open>
  \<^verbatim>\<open>destroy: (client) => new Promise(function(resolve, reject){
    client.end( (err) => {
      if (err) { return reject(err); }
      that._emitControl.disconnect && that.emit('disconnect', {...});
      return resolve(); }) })\<close>
\<close>

text \<open>The environment gives the \<open>err\<close> of the callback and whether a listener of
  \<open>disconnect\<close> throws.\<close>

definition destroy ::
  "pg_client \<Rightarrow> js_error option \<Rightarrow> bool \<Rightarrow> (executor, unit) promise" where
  "destroy client err listenerThrows that =
     (case err of
        Some e \<Rightarrow> (that, [ClientEnd client], Rejected (ReasonError e))
      | None \<Rightarrow>
          (case emit_when (ec_disconnect (emitControl that))
                  (DisconnectEvent (processID client)) listenerThrows of
             (t, thrown) \<Rightarrow>
               (that, ClientEnd client # t, if thrown then Pending else Fulfilled ())))"

section \<open>Submitting a statement\<close>

text \<open>
  \<^verbatim>\<open>_query (client, sql, parms) {
    let that = this;
    let start = new Date().getTime();
    return new Promise((resolve, reject) => {
      client.query(sql, parms, function (err, results) {
        if (err) { return reject(err); }
        that._onErrorMessage = null;
        that._emitControl.query && that.emit('query', {...});
        if (that._emitControl.results) {
          let elapsedTime = new Date().getTime() - start;
          that.emit('results', {...}); }
        return resolve(results); }); }); }\<close>
  The environment gives the two readings of the clock, the writes of other parties
  until the driver calls back, what the driver hands to the callback, and whether a
  listener of \<open>query\<close> and a listener of \<open>results\<close> throws. The callback runs
  after the function given to \<open>new Promise\<close> has returned, so an exception in it
  rejects nothing: \<open>resolve\<close> is not reached and the promise stays pending.
\<close>

definition private_query ::
  "int \<Rightarrow> other_write list \<Rightarrow> js_error + pg_result \<Rightarrow> int \<Rightarrow> bool \<Rightarrow> bool \<Rightarrow>
   pg_client \<Rightarrow> string \<Rightarrow> js_value list \<Rightarrow> (executor, pg_result) promise" where
  "private_query start ws reply now queryThrows resultsThrows client sql parms this =
     (let that = meanwhile ws this
      in case reply of
        Inl err \<Rightarrow> (that, [ClientQuery client sql parms], Rejected (ReasonError err))
      | Inr results \<Rightarrow>
          (let that1 = that\<lparr>onErrorMessage := None\<rparr>
           in case emit_when (ec_query (emitControl that1))
                     (QueryEvent sql parms (processID client)) queryThrows of
                (t1, thrown1) \<Rightarrow>
                  if thrown1 then (that1, ClientQuery client sql parms # t1, Pending)
                  else
                    (case emit_when (ec_results (emitControl that1))
                            (ResultsEvent (now - start) sql parms (rows results)
                               (processID client)) resultsThrows of
                       (t2, thrown2) \<Rightarrow>
                         (that1, ClientQuery client sql parms # t1 @ t2,
                          if thrown2 then Pending else Fulfilled results))))"

text \<open>What the environment gives to one call of \<open>query\<close>: how \<open>acquire\<close> settles
  and the writes of other parties until then, and what \<open>_query\<close> needs.\<close>

record query_env =
  whileAcquiring :: "other_write list"
  acquired :: "js_error + pg_client"
  startClock :: int
  whileQuerying :: "other_write list"
  driverReply :: "js_error + pg_result"
  replyClock :: int
  queryListenerThrows :: bool
  resultsListenerThrows :: bool

text \<open>The variables of one call of \<open>query\<close> that its handlers share: \<open>this\<close> and
  \<open>let client = null\<close>.\<close>

record query_scope =
  this_of :: executor
  client_var :: "pg_client option"

definition on_this :: "(executor, 'a) promise \<Rightarrow> (query_scope, 'a) promise" where
  "on_this p sc = (case p (this_of sc) of (that, t, r) \<Rightarrow> (sc\<lparr>this_of := that\<rparr>, t, r))"

text \<open>\<open>this._pool.acquire(0)\<close>: the call, and the instance as it is when the promise
  of the pool settles.\<close>

definition pool_acquire :: "query_env \<Rightarrow> (executor, pg_client) promise" where
  "pool_acquire env this =
     (meanwhile (whileAcquiring env) this, [PoolAcquire 0], of_outcome (acquired env))"

text \<open>\<open>err.message\<close> inside the template literal: a value without that member prints as
  \<open>undefined\<close>.\<close>

fun message_text :: "reason \<Rightarrow> string" where
  "message_text (ReasonError e) = message e"
| "message_text r = ''undefined''"

text \<open>\<^verbatim>\<open>`${err.message}: ${this._onErrorMessage ? this._onErrorMessage : ""}`\<close>\<close>

definition composite_message :: "reason \<Rightarrow> string option \<Rightarrow> string" where
  "composite_message err onErr =
     message_text err @ '': '' @
       (case onErr of
          None \<Rightarrow> []
        | Some m \<Rightarrow> (if truthy (JStr m) then m else []))"

text \<open>
  The chain inside \<open>query\<close>:
  \<^verbatim>\<open>this._pool.acquire(0)
    .then ((clientParm) => { client = clientParm; return this._query(client, sql, parms); })
    .then( (results) => { this._pool.release(client).then(); return resolve(results); })
    .catch( (err) => {
      this._pool && this._pool.release(client).then(() => {}).catch( () => {});
      reject(`${err.message}: ${this._onErrorMessage ? this._onErrorMessage : ""}`); });\<close>
  \<open>release\<close> is invoked and the promise it returns is not waited for in either handler.
  \<open>this._pool\<close> is the object the constructor stored, hence truthy.
\<close>

definition query_chain :: "string \<Rightarrow> js_value list \<Rightarrow> query_env \<Rightarrow> (query_scope, unit) promise" where
  "query_chain sql parms env =
     catch_p
       (then_p
          (then_p
             (on_this (pool_acquire env))
             (\<lambda>clientParm sc.
                on_this
                  (private_query (startClock env) (whileQuerying env) (driverReply env)
                     (replyClock env) (queryListenerThrows env) (resultsListenerThrows env)
                     clientParm sql parms)
                  (sc\<lparr>client_var := Some clientParm\<rparr>)))
          (\<lambda>results.
             then_p (\<lambda>sc. perform (PoolRelease (client_var sc)) sc)
               (\<lambda>_. perform (Settle (Resolve_results results)))))
       (\<lambda>err.
          then_p (\<lambda>sc. perform (PoolRelease (client_var sc)) sc)
            (\<lambda>_ sc.
               perform
                 (Settle (Reject (ReasonString
                    (composite_message err (onErrorMessage (this_of sc)))))) sc))"

text \<open>\<^verbatim>\<open>query (sql, parms = []) { return new Promise((resolve, reject) => { ... }); }\<close>
  The result is the instance afterwards, the trace of the call, and how the returned
  promise settled.\<close>

definition parms_or_default :: "js_value list option \<Rightarrow> js_value list" where
  "parms_or_default parmsArg = (case parmsArg of None \<Rightarrow> [] | Some ps \<Rightarrow> ps)"

definition query ::
  "executor \<Rightarrow> string \<Rightarrow> js_value list option \<Rightarrow> query_env \<Rightarrow>
   executor \<times> action list \<times> settlement option" where
  "query this sql parmsArg env =
     (let parms = parms_or_default parmsArg
      in case query_chain sql parms env \<lparr>this_of = this, client_var = None\<rparr> of
           (sc, t, r) \<Rightarrow> (this_of sc, t, first_settle t))"

text \<open>The three parts of what a call gives.\<close>

definition instance_of :: "executor \<times> action list \<times> 'a \<Rightarrow> executor" where
  "instance_of x = fst x"

definition trace_of :: "executor \<times> action list \<times> 'a \<Rightarrow> action list" where
  "trace_of x = fst (snd x)"

definition outcome_of :: "executor \<times> action list \<times> 'a \<Rightarrow> 'a" where
  "outcome_of x = snd (snd x)"

text \<open>The instance as it is when \<open>acquire\<close> has settled, and as it is when the driver
  calls back.\<close>

definition when_acquired :: "query_env \<Rightarrow> executor \<Rightarrow> executor" where
  "when_acquired env this = meanwhile (whileAcquiring env) this"

definition when_replied :: "query_env \<Rightarrow> executor \<Rightarrow> executor" where
  "when_replied env this = meanwhile (whileQuerying env) (when_acquired env this)"


section \<open>Closing\<close>

text \<open>\<^verbatim>\<open>waitFunction (timeout) {
    return new Promise( (resolve, reject) => { setTimeout(() => {resolve();}, timeout); }); }\<close>\<close>

definition waitFunction :: "nat \<Rightarrow> ('s, unit) promise" where
  "waitFunction timeout = call (SetTimeout timeout) (Fulfilled ())"

text \<open>What the environment gives to one call of \<open>close\<close>: the size of the pool's
  \<open>_factoryCreateOperations\<close> (\<open>None\<close> when the pool has no such member), and how
  \<open>drain\<close> and \<open>clear\<close> settle.\<close>

record close_env =
  factoryCreateOperations :: "nat option"
  drained :: "js_error + unit"
  cleared :: "js_error + unit"

text \<open>
  \<^verbatim>\<open>close () { return new Promise( (resolve, reject) => {
    let timeout = 0;
    this._pool && this._pool._factoryCreateOperations &&
      (this._pool._factoryCreateOperations.size > 0) &&
      (timeout = this._FACTORY_CREATION_WAIT_PERIOD);
    this.waitFunction(timeout)
      .then ( () => { return this._pool.drain(); })
      .then ( () => { return this._pool.clear(); })
      .then ( () => { return resolve(); })
      .catch( (err) => { return reject (err); }) }); }\<close>
\<close>

definition close_timeout :: "executor \<Rightarrow> close_env \<Rightarrow> nat" where
  "close_timeout this env =
     (case factoryCreateOperations env of
        None \<Rightarrow> 0
      | Some n \<Rightarrow> (if n > 0 then FACTORY_CREATION_WAIT_PERIOD this else 0))"

definition close_chain :: "close_env \<Rightarrow> (executor, unit) promise" where
  "close_chain env =
     then_p (perform ReadFactoryCreateOperations)
       (\<lambda>_ this.
          catch_p
            (then_p
               (then_p
                  (then_p (waitFunction (close_timeout this env))
                     (\<lambda>_. call PoolDrain (of_outcome (drained env))))
                  (\<lambda>_. call PoolClear (of_outcome (cleared env))))
               (\<lambda>_. perform (Settle Resolve_void)))
            (\<lambda>err. perform (Settle (Reject err)))
            this)"

definition close :: "executor \<Rightarrow> close_env \<Rightarrow> executor \<times> action list \<times> settlement option" where
  "close this env =
     (case close_chain env this of (that, t, r) \<Rightarrow> (that, t, first_settle t))"

section \<open>Sequences of operations\<close>

text \<open>
  What can happen to an instance: a caller invokes \<open>query\<close> or \<open>close\<close>, the pool
  invokes a member of the factory, or the pool emits \<open>factoryCreateError\<close>. Each
  operation carries what the environment gives to it.
\<close>

datatype operation =
    Query string "js_value list option" query_env
  | Close close_env
  | FactoryCreate pg_client "js_error option" bool
  | FactoryValidate pg_client "js_error + pg_result"
  | FactoryDestroy pg_client "js_error option" bool
  | FactoryCreateError string

fun step :: "executor \<Rightarrow> operation \<Rightarrow> executor \<times> action list" where
  "step this (Query sql parmsArg env) =
     (case query this sql parmsArg env of (that, t, r) \<Rightarrow> (that, t))"
| "step this (Close env) = (case close this env of (that, t, r) \<Rightarrow> (that, t))"
| "step this (FactoryCreate client err listenerThrows) =
     (case create client err listenerThrows this of (that, t, r) \<Rightarrow> (that, t))"
| "step this (FactoryValidate client reply) =
     (case validate client reply this of (that, t, r) \<Rightarrow> (that, t))"
| "step this (FactoryDestroy client err listenerThrows) =
     (case destroy client err listenerThrows this of (that, t, r) \<Rightarrow> (that, t))"
| "step this (FactoryCreateError err) = (on_factoryCreateError err this, [])"

fun run :: "executor \<Rightarrow> operation list \<Rightarrow> executor \<times> action list" where
  "run this [] = (this, [])"
| "run this (x # xs) =
     (case step this x of
        (this1, t1) \<Rightarrow> (case run this1 xs of (this2, t2) \<Rightarrow> (this2, t1 @ t2)))"

section \<open>Concrete inputs\<close>

text \<open>The configuration of the repository's example, a client, a result and some
  environments, used to run the definitions.\<close>

definition example_db :: db_config where
  "example_db =
     \<lparr>host = ''localhost'', user = ''nodejs-test'', password = ''nodejs-test'',
      port = JNum 5432, database = JStr ''nodejs-test''\<rparr>"

definition example_pool :: pool_config where
  "example_pool =
     \<lparr>poolMin = JNum 2, poolMax = JNum 10, idleTimeoutMillis = JNum 5000,
      acquireTimeoutMillis = JNum 0\<rparr>"

definition example_emit :: emit_control where
  "example_emit =
     \<lparr>ec_connect = JBool True, ec_disconnect = JBool True,
      ec_query = JBool True, ec_results = JBool True\<rparr>"

definition example_client :: pg_client where
  "example_client = \<lparr>clientRef = 1, processID = 6872\<rparr>"

definition example_result :: pg_result where
  "example_result =
     \<lparr>command = ''SELECT'', rowCount = 1, resultFields = [''thenumber''],
      rows = [[(''thenumber'', JNum 100)]]\<rparr>"

definition env_success :: query_env where
  "env_success =
     \<lparr>whileAcquiring = [], acquired = Inr example_client, startClock = 10,
      whileQuerying = [], driverReply = Inr example_result, replyClock = 12,
      queryListenerThrows = False, resultsListenerThrows = False\<rparr>"


definition env_driver_fails :: query_env where
  "env_driver_fails =
     \<lparr>whileAcquiring = [], acquired = Inr example_client, startClock = 10,
      whileQuerying = [], driverReply = Inl \<lparr>message = ''syntax error''\<rparr>,
      replyClock = 12, queryListenerThrows = False, resultsListenerThrows = False\<rparr>"

definition env_acquire_fails :: query_env where
  "env_acquire_fails =
     \<lparr>whileAcquiring = [], acquired = Inl \<lparr>message = ''ResourceRequest timed out''\<rparr>,
      startClock = 10, whileQuerying = [], driverReply = Inr example_result,
      replyClock = 12, queryListenerThrows = False, resultsListenerThrows = False\<rparr>"

definition env_creation_fails :: query_env where
  "env_creation_fails =
     \<lparr>whileAcquiring = [Report ''connect ECONNREFUSED''],
      acquired = Inl \<lparr>message = ''ResourceRequest timed out''\<rparr>,
      startClock = 10, whileQuerying = [], driverReply = Inr example_result,
      replyClock = 12, queryListenerThrows = False, resultsListenerThrows = False\<rparr>"

definition env_close_pending :: close_env where
  "env_close_pending =
     \<lparr>factoryCreateOperations = Some 2, drained = Inr (), cleared = Inr ()\<rparr>"

definition quiet_instance :: executor where
  "quiet_instance = constructor example_db example_pool None"

definition loud_instance :: executor where
  "loud_instance = constructor example_db example_pool (Some example_emit)"

definition example_emit_no_query :: emit_control where
  "example_emit_no_query =
     \<lparr>ec_connect = JBool True, ec_disconnect = JBool True,
      ec_query = JBool False, ec_results = JBool True\<rparr>"

definition example_ops :: "operation list" where
  "example_ops =
     [FactoryCreate example_client None False,
      Query ''select 1'' None env_success,
      FactoryCreateError ''connect ECONNREFUSED'',
      Query ''select 1'' None env_driver_fails,
      Close env_close_pending,
      FactoryDestroy example_client None False]"

section \<open>Properties of the escape helpers\<close>

lemma replace_global_each: "replace_global c rep s = each_replaced c rep s"
  by (induction s) (simp_all add: each_replaced_def)

lemma replace_global_absent: "c \<notin> set s \<Longrightarrow> replace_global c rep s = s"
  by (induction s) auto

lemma replace_global_append:
  "replace_global c rep (xs @ ys) = replace_global c rep xs @ replace_global c rep ys"
  by (induction xs) simp_all

lemma replace_global_length:
  "length (replace_global c (a # rep) s) = length s + count_list s c * length rep"
  by (induction s) simp_all

section \<open>The calls, unfolded\<close>

text \<open>What one call of \<open>query\<close> does, by the three ways it can go.\<close>

lemma meanwhile_emitControl [simp]: "emitControl (meanwhile ws this) = emitControl this"
  unfolding meanwhile_def
proof (induction ws arbitrary: this)
  case Nil
  show ?case by simp
next
  case (Cons w ws)
  have "emitControl (apply_write w this) = emitControl this"
    by (cases w) (simp_all add: on_factoryCreateError_def)
  with Cons.IH [of "apply_write w this"] show ?case by simp
qed

lemma meanwhile_wait_period [simp]:
  "FACTORY_CREATION_WAIT_PERIOD (meanwhile ws this) = FACTORY_CREATION_WAIT_PERIOD this"
  unfolding meanwhile_def
proof (induction ws arbitrary: this)
  case Nil
  show ?case by simp
next
  case (Cons w ws)
  have "FACTORY_CREATION_WAIT_PERIOD (apply_write w this) = FACTORY_CREATION_WAIT_PERIOD this"
    by (cases w) (simp_all add: on_factoryCreateError_def)
  with Cons.IH [of "apply_write w this"] show ?case by simp
qed

lemma meanwhile_Nil [simp]: "meanwhile [] this = this"
  by (simp add: meanwhile_def)

lemma query_unfold:
  "query this sql parmsArg env =
    (case acquired env of
       Inl e \<Rightarrow>
         (when_acquired env this,
          [PoolAcquire 0, PoolRelease None,
           Settle (Reject (ReasonString
             (composite_message (ReasonError e) (onErrorMessage (when_acquired env this)))))],
          Some (Reject (ReasonString
             (composite_message (ReasonError e) (onErrorMessage (when_acquired env this))))))
     | Inr c \<Rightarrow>
         (case driverReply env of
            Inl e \<Rightarrow>
              (when_replied env this,
               [PoolAcquire 0, ClientQuery c sql (parms_or_default parmsArg),
                PoolRelease (Some c),
                Settle (Reject (ReasonString
                  (composite_message (ReasonError e)
                     (onErrorMessage (when_replied env this)))))],
               Some (Reject (ReasonString
                  (composite_message (ReasonError e)
                     (onErrorMessage (when_replied env this))))))
          | Inr res \<Rightarrow>
              (if truthy (ec_query (emitControl this)) \<and> queryListenerThrows env
               then
                 ((when_replied env this)\<lparr>onErrorMessage := None\<rparr>,
                  [PoolAcquire 0, ClientQuery c sql (parms_or_default parmsArg),
                   Emit (QueryEvent sql (parms_or_default parmsArg) (processID c)),
                   Uncaught],
                  None)
               else if truthy (ec_results (emitControl this)) \<and> resultsListenerThrows env
               then
                 ((when_replied env this)\<lparr>onErrorMessage := None\<rparr>,
                  PoolAcquire 0 # ClientQuery c sql (parms_or_default parmsArg) #
                    (if truthy (ec_query (emitControl this))
                     then [Emit (QueryEvent sql (parms_or_default parmsArg) (processID c))]
                     else []) @
                    [Emit (ResultsEvent (replyClock env - startClock env) sql
                             (parms_or_default parmsArg) (rows res) (processID c)),
                     Uncaught],
                  None)
               else
                 ((when_replied env this)\<lparr>onErrorMessage := None\<rparr>,
                  PoolAcquire 0 # ClientQuery c sql (parms_or_default parmsArg) #
                    (if truthy (ec_query (emitControl this))
                     then [Emit (QueryEvent sql (parms_or_default parmsArg) (processID c))]
                     else []) @
                    (if truthy (ec_results (emitControl this))
                     then [Emit (ResultsEvent (replyClock env - startClock env) sql
                                   (parms_or_default parmsArg) (rows res) (processID c))]
                     else []) @
                    [PoolRelease (Some c), Settle (Resolve_results res)],
                  Some (Resolve_results res)))))"
  by (simp add: query_def query_chain_def then_p_def catch_p_def call_def perform_def
      of_outcome_def on_this_def pool_acquire_def private_query_def emit_when_def Let_def
      when_acquired_def when_replied_def split: sum.splits)

lemma when_acquired_fields [simp]:
  "emitControl (when_acquired env this) = emitControl this"
  "FACTORY_CREATION_WAIT_PERIOD (when_acquired env this) = FACTORY_CREATION_WAIT_PERIOD this"
  by (simp_all add: when_acquired_def)

lemma when_replied_fields [simp]:
  "emitControl (when_replied env this) = emitControl this"
  "FACTORY_CREATION_WAIT_PERIOD (when_replied env this) = FACTORY_CREATION_WAIT_PERIOD this"
  by (simp_all add: when_replied_def)

lemma close_unfold:
  "close this env =
     (this,
      ReadFactoryCreateOperations # SetTimeout (close_timeout this env) # PoolDrain #
        (case drained env of
           Inl e \<Rightarrow> [Settle (Reject (ReasonError e))]
         | Inr u \<Rightarrow> PoolClear #
             (case cleared env of
                Inl e \<Rightarrow> [Settle (Reject (ReasonError e))]
              | Inr u \<Rightarrow> [Settle Resolve_void])),
      (case drained env of
         Inl e \<Rightarrow> Some (Reject (ReasonError e))
       | Inr u \<Rightarrow>
           (case cleared env of
              Inl e \<Rightarrow> Some (Reject (ReasonError e))
            | Inr u \<Rightarrow> Some Resolve_void)))"
  by (simp add: close_def close_chain_def then_p_def catch_p_def call_def perform_def
      of_outcome_def waitFunction_def split: sum.splits)

lemma composite_message_error:
  "composite_message (ReasonError e) onErr =
     message e @ '': '' @ (case onErr of None \<Rightarrow> [] | Some m \<Rightarrow> m)"
  by (simp add: composite_message_def split: option.splits)

lemmas projections = instance_of_def trace_of_def outcome_of_def

section \<open>What no operation changes\<close>

lemma step_emitControl: "emitControl (fst (step this x)) = emitControl this"
proof (cases x)
  case (Query sql parmsArg env)
  then show ?thesis by (simp add: query_unfold split: sum.splits)
next
  case (Close env)
  then show ?thesis by (simp add: close_unfold)
next
  case (FactoryCreate client err listenerThrows)
  then show ?thesis by (simp add: create_def emit_when_def split: option.splits)
next
  case (FactoryValidate client reply)
  then show ?thesis by (simp add: validate_def split: sum.splits)
next
  case (FactoryDestroy client err listenerThrows)
  then show ?thesis by (simp add: destroy_def emit_when_def split: option.splits)
next
  case (FactoryCreateError err)
  then show ?thesis by (simp add: on_factoryCreateError_def)
qed

lemma step_wait_period:
  "FACTORY_CREATION_WAIT_PERIOD (fst (step this x)) = FACTORY_CREATION_WAIT_PERIOD this"
proof (cases x)
  case (Query sql parmsArg env)
  then show ?thesis by (simp add: query_unfold split: sum.splits)
next
  case (Close env)
  then show ?thesis by (simp add: close_unfold)
next
  case (FactoryCreate client err listenerThrows)
  then show ?thesis by (simp add: create_def emit_when_def split: option.splits)
next
  case (FactoryValidate client reply)
  then show ?thesis by (simp add: validate_def split: sum.splits)
next
  case (FactoryDestroy client err listenerThrows)
  then show ?thesis by (simp add: destroy_def emit_when_def split: option.splits)
next
  case (FactoryCreateError err)
  then show ?thesis by (simp add: on_factoryCreateError_def)
qed

lemma run_emitControl: "emitControl (fst (run this ops)) = emitControl this"
proof (induction ops arbitrary: this)
  case Nil
  show ?case by simp
next
  case (Cons x xs)
  have "emitControl (fst (run (fst (step this x)) xs)) = emitControl this"
    by (simp add: Cons.IH step_emitControl)
  then show ?case by (simp add: case_prod_unfold)
qed

lemma run_wait_period:
  "FACTORY_CREATION_WAIT_PERIOD (fst (run this ops)) = FACTORY_CREATION_WAIT_PERIOD this"
proof (induction ops arbitrary: this)
  case Nil
  show ?case by simp
next
  case (Cons x xs)
  have "FACTORY_CREATION_WAIT_PERIOD (fst (run (fst (step this x)) xs)) =
        FACTORY_CREATION_WAIT_PERIOD this"
    by (simp add: Cons.IH step_wait_period)
  then show ?case by (simp add: case_prod_unfold)
qed

lemma constructor_wait_period:
  "FACTORY_CREATION_WAIT_PERIOD (constructor dbConfig poolConfig emitControlArg) = 500"
  by (simp add: constructor_def Let_def)

lemma constructor_emitControl:
  "emitControl (constructor dbConfig poolConfig emitControlArg) =
     (case emitControlArg of None \<Rightarrow> empty_object | Some ec \<Rightarrow> ec)"
  by (simp add: constructor_def Let_def)

section \<open>Events follow \<open>emitControl\<close>\<close>

lemma step_no_emit:
  assumes "\<not> truthy (ec_connect (emitControl this))"
    and "\<not> truthy (ec_disconnect (emitControl this))"
    and "\<not> truthy (ec_query (emitControl this))"
    and "\<not> truthy (ec_results (emitControl this))"
  shows "filter is_emit (snd (step this x)) = []"
proof (cases x)
  case (Query sql parmsArg env)
  with assms show ?thesis by (simp add: query_unfold split: sum.splits)
next
  case (Close env)
  then show ?thesis by (simp add: close_unfold split: sum.splits)
next
  case (FactoryCreate client err listenerThrows)
  with assms show ?thesis by (simp add: create_def emit_when_def split: option.splits)
next
  case (FactoryValidate client reply)
  then show ?thesis by (simp add: validate_def split: sum.splits)
next
  case (FactoryDestroy client err listenerThrows)
  with assms show ?thesis by (simp add: destroy_def emit_when_def split: option.splits)
next
  case (FactoryCreateError err)
  then show ?thesis by simp
qed

lemma step_no_query_emit:
  assumes "\<not> truthy (ec_query (emitControl this))"
  shows "filter is_query_emit (snd (step this x)) = []"
proof (cases x)
  case (Query sql parmsArg env)
  with assms show ?thesis by (simp add: query_unfold split: sum.splits)
next
  case (Close env)
  then show ?thesis by (simp add: close_unfold split: sum.splits)
next
  case (FactoryCreate client err listenerThrows)
  then show ?thesis by (simp add: create_def emit_when_def split: option.splits)
next
  case (FactoryValidate client reply)
  then show ?thesis by (simp add: validate_def split: sum.splits)
next
  case (FactoryDestroy client err listenerThrows)
  then show ?thesis by (simp add: destroy_def emit_when_def split: option.splits)
next
  case (FactoryCreateError err)
  then show ?thesis by simp
qed

lemma run_no_emit:
  assumes "\<not> truthy (ec_connect (emitControl this))"
    and "\<not> truthy (ec_disconnect (emitControl this))"
    and "\<not> truthy (ec_query (emitControl this))"
    and "\<not> truthy (ec_results (emitControl this))"
  shows "filter is_emit (snd (run this ops)) = []"
  using assms
proof (induction ops arbitrary: this)
  case Nil
  show ?case by simp
next
  case (Cons x xs)
  have here: "filter is_emit (snd (step this x)) = []"
    using Cons.prems by (rule step_no_emit)
  have later: "filter is_emit (snd (run (fst (step this x)) xs)) = []"
    using Cons.prems by (intro Cons.IH) (simp_all add: step_emitControl)
  from here later show ?case by (simp add: case_prod_unfold)
qed

lemma run_no_query_emit:
  assumes "\<not> truthy (ec_query (emitControl this))"
  shows "filter is_query_emit (snd (run this ops)) = []"
  using assms
proof (induction ops arbitrary: this)
  case Nil
  show ?case by simp
next
  case (Cons x xs)
  have here: "filter is_query_emit (snd (step this x)) = []"
    using Cons.prems by (rule step_no_query_emit)
  have later: "filter is_query_emit (snd (run (fst (step this x)) xs)) = []"
    using Cons.prems by (intro Cons.IH) (simp add: step_emitControl)
  from here later show ?case by (simp add: case_prod_unfold)
qed

section \<open>The claims about \<open>query\<close>\<close>




text \<open>
  Claim C3, as the code has it. The text handed to \<open>reject\<close> is a template with a fixed
  separator: when the acquire or the driver fails with an error \<open>e\<close>, the caller
  receives the message of \<open>e\<close>, then a colon and a space, then the factory error that
  is stored at that moment when there is one, and nothing more when there is none. That
  moment is the settling of \<open>acquire\<close> in the first case and the callback of the driver
  in the second, and the call leaves the instance as it was then.
\<close>

theorem query_failure_message:
  assumes "acquired env = Inl e \<or> (\<exists>c. acquired env = Inr c \<and> driverReply env = Inl e)"
  shows "outcome_of (query this sql parmsArg env) =
           Some (Reject (ReasonString
             (message e @ '': '' @
                (case onErrorMessage (instance_of (query this sql parmsArg env)) of
                   None \<Rightarrow> []
                 | Some m \<Rightarrow> m))))
         \<and> instance_of (query this sql parmsArg env) =
             (case acquired env of
                Inl a \<Rightarrow> when_acquired env this
              | Inr c \<Rightarrow> when_replied env this)"
  using assms
  by (auto simp add: query_unfold projections composite_message_error)

theorem query_failure_message_witness:
  "(acquired env_creation_fails = Inl \<lparr>message = ''ResourceRequest timed out''\<rparr>
    \<or> (\<exists>c. acquired env_creation_fails = Inr c
          \<and> driverReply env_creation_fails = Inl \<lparr>message = ''ResourceRequest timed out''\<rparr>))
   \<and> onErrorMessage (instance_of (query quiet_instance ''select 1'' None env_creation_fails)) =
       Some ''connect ECONNREFUSED''
   \<and> outcome_of (query quiet_instance ''select 1'' None env_creation_fails) =
       Some (Reject (ReasonString ''ResourceRequest timed out: connect ECONNREFUSED''))"
proof -
  have h: "acquired env_creation_fails = Inl \<lparr>message = ''ResourceRequest timed out''\<rparr>
    \<or> (\<exists>c. acquired env_creation_fails = Inr c
          \<and> driverReply env_creation_fails = Inl \<lparr>message = ''ResourceRequest timed out''\<rparr>)"
    by (simp add: env_creation_fails_def)
  have stored: "onErrorMessage (when_acquired env_creation_fails quiet_instance) =
      Some ''connect ECONNREFUSED''"
    by (simp add: when_acquired_def meanwhile_def env_creation_fails_def
        on_factoryCreateError_def)
  have a: "acquired env_creation_fails = Inl \<lparr>message = ''ResourceRequest timed out''\<rparr>"
    by (simp add: env_creation_fails_def)
  from query_failure_message [OF h, of quiet_instance "''select 1''" None] h stored a
  show ?thesis by simp
qed

text \<open>
  Claim C3 as written fails: with no stored factory error the caller does not receive the
  driver's message with nothing appended, it receives the message followed by the
  separator.
\<close>

theorem query_failure_message_counterexample:
  "onErrorMessage quiet_instance = None
   \<and> whileAcquiring env_driver_fails = [] \<and> whileQuerying env_driver_fails = []
   \<and> outcome_of (query quiet_instance ''select 1'' None env_driver_fails) =
       Some (Reject (ReasonString ''syntax error: ''))
   \<and> outcome_of (query quiet_instance ''select 1'' None env_driver_fails) \<noteq>
       Some (Reject (ReasonString ''syntax error''))"
  by (simp add: query_unfold projections composite_message_error env_driver_fails_def
      quiet_instance_def constructor_def when_acquired_def when_replied_def)

text \<open>
  Claim C4, as the code has it. When the acquire fails with an error \<open>e\<close>, nothing is
  submitted to a client and nothing is emitted; the handler of the failure still invokes
  \<open>release\<close> once, on the variable that holds no client (\<open>null\<close>), and then rejects
  with the message of \<open>e\<close>, the separator, and the factory error stored at that moment
  when there is one. The call itself writes nothing to the instance.
\<close>

theorem query_acquire_failure:
  assumes "acquired env = Inl e"
  shows "trace_of (query this sql parmsArg env) =
           [PoolAcquire 0, PoolRelease None,
            Settle (Reject (ReasonString
              (message e @ '': '' @
                 (case onErrorMessage (when_acquired env this) of
                    None \<Rightarrow> []
                  | Some m \<Rightarrow> m))))]
         \<and> outcome_of (query this sql parmsArg env) =
             Some (Reject (ReasonString
               (message e @ '': '' @
                  (case onErrorMessage (when_acquired env this) of
                     None \<Rightarrow> []
                   | Some m \<Rightarrow> m))))
         \<and> instance_of (query this sql parmsArg env) = when_acquired env this"
  using assms by (simp add: query_unfold projections composite_message_error)

theorem query_acquire_failure_witness:
  "acquired env_acquire_fails = Inl \<lparr>message = ''ResourceRequest timed out''\<rparr>
   \<and> trace_of (query quiet_instance ''select 1'' None env_acquire_fails) =
       [PoolAcquire 0, PoolRelease None,
        Settle (Reject (ReasonString ''ResourceRequest timed out: ''))]"
proof -
  have h: "acquired env_acquire_fails = Inl \<lparr>message = ''ResourceRequest timed out''\<rparr>"
    by (simp add: env_acquire_fails_def)
  have stored: "onErrorMessage (when_acquired env_acquire_fails quiet_instance) = None"
    by (simp add: when_acquired_def env_acquire_fails_def quiet_instance_def constructor_def)
  from query_acquire_failure [OF h, of quiet_instance "''select 1''" None] h stored
  show ?thesis by simp
qed

text \<open>
  Claim C4 as written fails: a call whose acquire fails does invoke \<open>release\<close> on the
  pool before it rejects.
\<close>

theorem query_acquire_failure_counterexample:
  "acquired env_acquire_fails = Inl \<lparr>message = ''ResourceRequest timed out''\<rparr>
   \<and> filter is_release (trace_of (query quiet_instance ''select 1'' None env_acquire_fails)) =
       [PoolRelease None]
   \<and> filter is_release (trace_of (query quiet_instance ''select 1'' None env_acquire_fails))
       \<noteq> []"
  by (simp add: query_unfold projections env_acquire_fails_def)

text \<open>
  Claim C5. A call of \<open>query\<close> whose driver execution fails emits nothing, whatever
  \<open>emitControl\<close> holds. And whenever a call emits an event, the pool had handed over a
  client, the driver had replied with a result, and the event stands in the trace after
  the submission.
\<close>

theorem query_failure_emits_nothing:
  "(driverReply env = Inl e \<longrightarrow>
      filter is_query_emit (trace_of (query this sql parmsArg env)) = []
      \<and> filter is_results_emit (trace_of (query this sql parmsArg env)) = []
      \<and> filter is_emit (trace_of (query this sql parmsArg env)) = [])
   \<and> (Emit ev \<in> set (trace_of (query this sql parmsArg env)) \<longrightarrow>
        (\<exists>c res rest.
           acquired env = Inr c \<and> driverReply env = Inr res
           \<and> trace_of (query this sql parmsArg env) =
               PoolAcquire 0 # ClientQuery c sql (parms_or_default parmsArg) # rest
           \<and> Emit ev \<in> set rest))"
  by (auto simp add: query_unfold projections split: sum.splits if_splits)

theorem query_failure_emits_nothing_witness:
  "driverReply env_driver_fails = Inl \<lparr>message = ''syntax error''\<rparr>
   \<and> truthy (ec_query (emitControl loud_instance))
   \<and> truthy (ec_results (emitControl loud_instance))
   \<and> filter is_emit (trace_of (query loud_instance ''select 1'' None env_driver_fails)) = []
   \<and> Emit (QueryEvent ''select 1'' [] 6872)
        \<in> set (trace_of (query loud_instance ''select 1'' None env_success))
   \<and> (\<exists>c res rest.
           acquired env_success = Inr c \<and> driverReply env_success = Inr res
           \<and> trace_of (query loud_instance ''select 1'' None env_success) =
               PoolAcquire 0 # ClientQuery c ''select 1'' (parms_or_default None) # rest
           \<and> Emit (QueryEvent ''select 1'' [] 6872) \<in> set rest)"
proof -
  have h1: "driverReply env_driver_fails = Inl \<lparr>message = ''syntax error''\<rparr>"
    by (simp add: env_driver_fails_def)
  have h2: "Emit (QueryEvent ''select 1'' [] 6872)
        \<in> set (trace_of (query loud_instance ''select 1'' None env_success))"
    by (simp add: query_unfold projections env_success_def loud_instance_def
        constructor_def example_emit_def example_client_def parms_or_default_def)
  have g: "truthy (ec_query (emitControl loud_instance))
           \<and> truthy (ec_results (emitControl loud_instance))"
    by (simp add: loud_instance_def constructor_def example_emit_def)
  from query_failure_emits_nothing
         [where env = env_driver_fails and e = "\<lparr>message = ''syntax error''\<rparr>"
            and this = loud_instance and sql = "''select 1''" and parmsArg = None]
       query_failure_emits_nothing
         [where ev = "QueryEvent ''select 1'' [] 6872" and this = loud_instance
            and sql = "''select 1''" and parmsArg = None and env = env_success]
       h1 h2 g
  show ?thesis by blast
qed

section \<open>The claim about \<open>close\<close>\<close>

text \<open>
  Claim C2. On an instance made by the constructor, after any operations, \<open>close\<close>
  first reads the pool's count of pending creations, then waits 500 ms when that count
  is above zero and sets a timeout of zero otherwise, then invokes \<open>drain\<close>, then
  \<open>clear\<close>, then resolves. A failure of \<open>drain\<close> skips \<open>clear\<close> and rejects
  with that error; a failure of \<open>clear\<close> rejects with that error; neither is invoked a
  second time.
\<close>

theorem close_sequence:
  "trace_of (close (fst (run (constructor dbConfig poolConfig emitControlArg) ops)) env) =
     ReadFactoryCreateOperations #
     SetTimeout (case factoryCreateOperations env of
                   None \<Rightarrow> 0
                 | Some n \<Rightarrow> (if n > 0 then 500 else 0)) #
     PoolDrain #
     (case drained env of
        Inl e \<Rightarrow> [Settle (Reject (ReasonError e))]
      | Inr u \<Rightarrow>
          PoolClear #
          (case cleared env of
             Inl e \<Rightarrow> [Settle (Reject (ReasonError e))]
           | Inr u \<Rightarrow> [Settle Resolve_void]))
   \<and> outcome_of (close (fst (run (constructor dbConfig poolConfig emitControlArg) ops)) env) =
       (case drained env of
          Inl e \<Rightarrow> Some (Reject (ReasonError e))
        | Inr u \<Rightarrow>
            (case cleared env of
               Inl e \<Rightarrow> Some (Reject (ReasonError e))
             | Inr u \<Rightarrow> Some Resolve_void))"
proof -
  let ?inst = "fst (run (constructor dbConfig poolConfig emitControlArg) ops)"
  have "FACTORY_CREATION_WAIT_PERIOD ?inst = 500"
    by (simp add: run_wait_period constructor_wait_period)
  then have "close_timeout ?inst env =
      (case factoryCreateOperations env of
         None \<Rightarrow> 0
       | Some n \<Rightarrow> (if n > 0 then 500 else 0))"
    by (simp add: close_timeout_def split: option.splits)
  then show ?thesis
    by (simp add: close_unfold projections)
qed

theorem close_sequence_witness:
  "trace_of (close (fst (run loud_instance [Query ''select 1'' None env_success])) env_close_pending) =
     [ReadFactoryCreateOperations, SetTimeout 500, PoolDrain, PoolClear, Settle Resolve_void]
   \<and> trace_of (close quiet_instance
        \<lparr>factoryCreateOperations = Some 0, drained = Inl \<lparr>message = ''draining failed''\<rparr>,
         cleared = Inr ()\<rparr>) =
     [ReadFactoryCreateOperations, SetTimeout 0, PoolDrain,
      Settle (Reject (ReasonError \<lparr>message = ''draining failed''\<rparr>))]"
  using close_sequence [of example_db example_pool "Some example_emit"
          "[Query ''select 1'' None env_success]" env_close_pending]
        close_sequence [of example_db example_pool None "[]"
          "\<lparr>factoryCreateOperations = Some 0,
            drained = Inl \<lparr>message = ''draining failed''\<rparr>, cleared = Inr ()\<rparr>"]
  by (simp add: loud_instance_def quiet_instance_def env_close_pending_def)

section \<open>The claims about the stored factory error and the events\<close>

text \<open>
  Claim C7, as the code has it. A call of \<open>query\<close> that resolves leaves no stored
  factory error, whatever was stored before. The listener stores what the pool reports
  when that value is truthy, that is a message that is not empty; a report with an empty
  message leaves the instance as it was.
\<close>

theorem factory_error_cleared_and_stored:
  "(outcome_of (query this sql parmsArg env) = Some (Resolve_results res) \<longrightarrow>
      onErrorMessage (instance_of (query this sql parmsArg env)) = None)
   \<and> (err \<noteq> [] \<longrightarrow> onErrorMessage (on_factoryCreateError err this) = Some err)
   \<and> (err = [] \<longrightarrow> on_factoryCreateError err this = this)"
  by (simp add: query_unfold projections on_factoryCreateError_def split: sum.splits)

theorem factory_error_cleared_and_stored_witness:
  "onErrorMessage (on_factoryCreateError ''connect ECONNREFUSED'' quiet_instance) =
     Some ''connect ECONNREFUSED''
   \<and> outcome_of (query (on_factoryCreateError ''connect ECONNREFUSED'' quiet_instance)
        ''select 1'' None env_success) = Some (Resolve_results example_result)
   \<and> onErrorMessage (instance_of (query
        (on_factoryCreateError ''connect ECONNREFUSED'' quiet_instance)
        ''select 1'' None env_success)) = None
   \<and> on_factoryCreateError [] quiet_instance = quiet_instance"
proof -
  let ?inst = "on_factoryCreateError ''connect ECONNREFUSED'' quiet_instance"
  have h: "outcome_of (query ?inst ''select 1'' None env_success) =
      Some (Resolve_results example_result)"
    by (simp add: query_unfold projections env_success_def)
  from factory_error_cleared_and_stored
         [where this = ?inst and sql = "''select 1''" and parmsArg = None
            and env = env_success and res = example_result
            and err = "''connect ECONNREFUSED''"]
       factory_error_cleared_and_stored
         [where this = quiet_instance and sql = "''select 1''" and parmsArg = None
            and env = env_success and res = example_result and err = "[]"]
       h
  show ?thesis
    by (simp add: on_factoryCreateError_def)
qed

text \<open>
  Claim C7 as written fails: after the pool has reported a creation error with an empty
  message, the stored value is not that report but the older one.
\<close>

theorem factory_error_stored_counterexample:
  "onErrorMessage
     (fst (run quiet_instance
        [FactoryCreateError ''connect ECONNREFUSED'', FactoryCreateError []])) =
     Some ''connect ECONNREFUSED''
   \<and> onErrorMessage
     (fst (run quiet_instance
        [FactoryCreateError ''connect ECONNREFUSED'', FactoryCreateError []])) \<noteq> Some []"
  by (simp add: on_factoryCreateError_def)

text \<open>
  Claim C8. No sequence of operations changes \<open>emitControl\<close>: it stays what the
  constructor received, or the empty object when the constructor received none. When
  none of its four members is truthy, as with that default, no event of any kind is
  emitted by any sequence of operations; when its member \<open>query\<close> is not truthy, no
  \<open>query\<close> event is emitted.
\<close>

theorem emit_control_fixed_and_silent:
  "emitControl (fst (run (constructor dbConfig poolConfig emitControlArg) ops)) =
     (case emitControlArg of None \<Rightarrow> empty_object | Some ec \<Rightarrow> ec)
   \<and> filter is_emit (snd (run (constructor dbConfig poolConfig None) ops)) = []
   \<and> (\<not> truthy (ec_connect ec) \<and> \<not> truthy (ec_disconnect ec)
        \<and> \<not> truthy (ec_query ec) \<and> \<not> truthy (ec_results ec) \<longrightarrow>
      filter is_emit (snd (run (constructor dbConfig poolConfig (Some ec)) ops)) = [])
   \<and> (\<not> truthy (ec_query ec) \<longrightarrow>
      filter is_query_emit (snd (run (constructor dbConfig poolConfig (Some ec)) ops)) = [])"
proof -
  have fixed: "emitControl (fst (run (constructor dbConfig poolConfig emitControlArg) ops)) =
     (case emitControlArg of None \<Rightarrow> empty_object | Some ec \<Rightarrow> ec)"
    by (simp add: run_emitControl constructor_emitControl)
  have quiet: "filter is_emit (snd (run (constructor dbConfig poolConfig None) ops)) = []"
    by (rule run_no_emit) (simp_all add: constructor_emitControl empty_object_def)
  have off: "filter is_emit (snd (run (constructor dbConfig poolConfig (Some ec)) ops)) = []"
    if "\<not> truthy (ec_connect ec)" "\<not> truthy (ec_disconnect ec)"
       "\<not> truthy (ec_query ec)" "\<not> truthy (ec_results ec)"
    using that by (intro run_no_emit) (simp_all add: constructor_emitControl)
  have query_off:
    "filter is_query_emit (snd (run (constructor dbConfig poolConfig (Some ec)) ops)) = []"
    if "\<not> truthy (ec_query ec)"
    using that by (intro run_no_query_emit) (simp add: constructor_emitControl)
  from fixed quiet off query_off show ?thesis by blast
qed

theorem emit_control_fixed_and_silent_witness:
  "\<not> truthy (ec_query example_emit_no_query)
   \<and> emitControl
        (fst (run (constructor example_db example_pool (Some example_emit_no_query))
                example_ops)) = example_emit_no_query
   \<and> filter is_emit (snd (run (constructor example_db example_pool None) example_ops)) = []
   \<and> filter is_query_emit
        (snd (run (constructor example_db example_pool (Some example_emit_no_query))
                example_ops)) = []
   \<and> filter is_emit
        (snd (run (constructor example_db example_pool (Some example_emit_no_query))
                example_ops)) =
       [Emit (ConnectEvent 6872),
        Emit (ResultsEvent 2 ''select 1'' [] [[(''thenumber'', JNum 100)]] 6872),
        Emit (DisconnectEvent 6872)]"
proof -
  have h: "\<not> truthy (ec_query example_emit_no_query)"
    by (simp add: example_emit_no_query_def)
  have others: "filter is_emit
        (snd (run (constructor example_db example_pool (Some example_emit_no_query))
                example_ops)) =
       [Emit (ConnectEvent 6872),
        Emit (ResultsEvent 2 ''select 1'' [] [[(''thenumber'', JNum 100)]] 6872),
        Emit (DisconnectEvent 6872)]"
    by (simp add: example_ops_def query_unfold close_unfold create_def destroy_def
        constructor_def example_emit_no_query_def env_success_def env_driver_fails_def
        example_client_def example_result_def parms_or_default_def
        on_factoryCreateError_def env_close_pending_def example_pool_def emit_when_def)
  from emit_control_fixed_and_silent
         [of example_db example_pool "Some example_emit_no_query" example_ops
            example_emit_no_query]
       h others
  show ?thesis by simp
qed

section \<open>The claim about \<open>validate\<close>\<close>

text \<open>
  Claim C6, on the code. When the probe succeeds the promise of \<open>validate\<close> is
  fulfilled with \<open>true\<close>. When the probe fails the promise is not fulfilled with
  \<open>false\<close>: it is rejected, and \<open>false\<close> is the reason of the rejection.
\<close>

theorem validate_probe_outcomes:
  "validate client (Inr res) that =
     (that, [ClientQuery client ''select 1'' []], Fulfilled True)
   \<and> validate client (Inl err) that =
     (that, [ClientQuery client ''select 1'' []], Rejected (ReasonBool False))
   \<and> outcome_of (validate client (Inl err) that) \<noteq> Fulfilled False"
  by (simp add: validate_def projections)

section \<open>The claim about the escape helpers\<close>

text \<open>
  Claim C9. Both helpers give back an argument that is not a string as it is. On a
  string, \<open>escapeDoubleQuotes\<close> replaces each double quote by a backslash and a
  double quote, and \<open>escapeSingleQuotes\<close> replaces each single quote by two single
  quotes; every other character is kept, so a string without the quote comes back equal.
\<close>

theorem escape_helpers:
  "(\<not> is_string x \<longrightarrow> escapeDoubleQuotes x = x \<and> escapeSingleQuotes x = x)
   \<and> escapeDoubleQuotes (JStr s) =
       JStr (each_replaced double_quote [backslash, double_quote] s)
   \<and> escapeSingleQuotes (JStr s) =
       JStr (each_replaced single_quote [single_quote, single_quote] s)
   \<and> (double_quote \<notin> set s \<longrightarrow> escapeDoubleQuotes (JStr s) = JStr s)
   \<and> (single_quote \<notin> set s \<longrightarrow> escapeSingleQuotes (JStr s) = JStr s)"
proof -
  have other: "escapeDoubleQuotes x = x \<and> escapeSingleQuotes x = x" if "\<not> is_string x"
    using that by (cases x) simp_all
  have each: "escapeDoubleQuotes (JStr s) =
       JStr (each_replaced double_quote [backslash, double_quote] s)"
    "escapeSingleQuotes (JStr s) =
       JStr (each_replaced single_quote [single_quote, single_quote] s)"
    by (simp_all add: replace_global_each)
  have absent: "escapeDoubleQuotes (JStr s) = JStr s" if "double_quote \<notin> set s"
    using that by (simp add: replace_global_absent)
  have absent': "escapeSingleQuotes (JStr s) = JStr s" if "single_quote \<notin> set s"
    using that by (simp add: replace_global_absent)
  from other each absent absent' show ?thesis by blast
qed

theorem escape_helpers_witness:
  "\<not> is_string (JObj 7)
   \<and> escapeDoubleQuotes (JObj 7) = JObj 7 \<and> escapeSingleQuotes (JObj 7) = JObj 7
   \<and> double_quote \<notin> set ''nodoublequotes''
   \<and> single_quote \<notin> set ''nodoublequotes''
   \<and> escapeDoubleQuotes (JStr ''nodoublequotes'') = JStr ''nodoublequotes''
   \<and> escapeSingleQuotes (JStr ''nodoublequotes'') = JStr ''nodoublequotes''"
proof -
  have h: "\<not> is_string (JObj 7)"
    "double_quote \<notin> set ''nodoublequotes''"
    "single_quote \<notin> set ''nodoublequotes''"
    by (simp_all add: double_quote_def single_quote_def)
  from escape_helpers [of "JObj 7" "''nodoublequotes''"] h
  show ?thesis by blast
qed

text \<open>The two strings of the repository's tests that contain quotes.\<close>

lemma escapeDoubleQuotes_test:
  "escapeDoubleQuotes (JStr (''quoted'' @ [double_quote] @ ''likethis'' @ [double_quote])) =
     JStr (''quoted'' @ [backslash, double_quote] @ ''likethis'' @ [backslash, double_quote])"
  by (simp add: double_quote_def backslash_def)

lemma escapeSingleQuotes_test:
  "escapeSingleQuotes (JStr (''quoted'' @ [single_quote] @ ''likethis'' @ [single_quote])) =
     JStr (''quoted'' @ [single_quote, single_quote] @ ''likethis'' @
           [single_quote, single_quote])"
  by (simp add: single_quote_def)

section \<open>The claim about the constructor\<close>

text \<open>
  Claim C10. When \<open>acquireTimeoutMillis\<close> of the pool configuration is not truthy
  (missing, zero, or another falsy value), the pool is created with
  \<open>acquireTimeoutMillis\<close> 1000; so a supplied 0 is replaced by 1000, and the pool is
  never created with 0.
\<close>

theorem constructor_acquire_timeout:
  "(\<not> truthy (acquireTimeoutMillis poolConfig) \<longrightarrow>
      acquireTimeoutMillis (poolOptions (constructor dbConfig poolConfig emitControlArg)) =
        JNum 1000)
   \<and> acquireTimeoutMillis
       (poolOptions (constructor dbConfig (poolConfig\<lparr>acquireTimeoutMillis := JNum 0\<rparr>)
          emitControlArg)) = JNum 1000
   \<and> acquireTimeoutMillis
       (poolOptions (constructor dbConfig (poolConfig\<lparr>acquireTimeoutMillis := JUndefined\<rparr>)
          emitControlArg)) = JNum 1000
   \<and> acquireTimeoutMillis (poolOptions (constructor dbConfig poolConfig emitControlArg)) \<noteq>
       JNum 0"
  by (auto simp add: constructor_def Let_def)

theorem constructor_acquire_timeout_witness:
  "acquireTimeoutMillis example_pool = JNum 0
   \<and> \<not> truthy (acquireTimeoutMillis example_pool)
   \<and> acquireTimeoutMillis (poolOptions (constructor example_db example_pool None)) =
       JNum 1000"
proof -
  have h: "acquireTimeoutMillis example_pool = JNum 0"
    "\<not> truthy (acquireTimeoutMillis example_pool)"
    by (simp_all add: example_pool_def)
  from constructor_acquire_timeout [of example_pool example_db None] h
  show ?thesis by simp
qed


end
